theory Spec2Isabelle
  imports Complex_Main "HOL-Library.AList" "HOL-Library.Multiset" "HOL-Library.Sublist"
begin

section \<open>Data model of \<open>deauth_detector.py\<close>\<close>

text \<open>
  The two dataclasses of the source. Several field names occur in both; the record declared
  last owns the short name, so \<open>source_mac e\<close> reads an event and \<open>Alert.source_mac a\<close>
  reads an alert.
\<close>

record Alert =
  timestamp :: string
  severity :: string
  attack_type :: string
  source_mac :: string
  target_mac :: string
  bssid :: string
  frame_count :: int
  description :: string

record DeauthEvent =
  timestamp :: string
  source_mac :: string
  dest_mac :: string
  bssid :: string
  frame_type :: string
  reason_code :: int
  channel :: "int option"

text \<open>
  What the detector writes to standard output: one line per event (\<open>print_event\<close>) and one
  banner per alert (\<open>print_alert\<close>, which also prints \<open>self.window\<close>). The colours and the
  layout of the text are left out; which routine printed, and for which value, is kept.
\<close>

datatype printed = EventLine DeauthEvent | AlertBanner Alert int

text \<open>
  The fields of \<open>DeauthDetector.__init__\<close>. \<open>deauth_counts\<close> is a \<open>defaultdict(list)\<close>
  from the key string to the list of clock readings, \<open>source_counts\<close> and \<open>target_counts\<close>
  are \<open>Counter\<close>s, kept as association lists in insertion order because \<open>most_common\<close>
  depends on that order. \<open>stdout\<close> is the text printed so far. A clock reading
  (\<open>time.time()\<close>) is a real number here.
\<close>

record DeauthDetector =
  interface :: string
  threshold :: int
  window :: int
  events :: "DeauthEvent list"
  alerts :: "Alert list"
  running :: bool
  deauth_counts :: "string \<rightharpoonup> real list"
  source_counts :: "(string \<times> int) list"
  target_counts :: "(string \<times> int) list"
  stdout :: "printed list"

definition init :: "string \<Rightarrow> int \<Rightarrow> int \<Rightarrow> DeauthDetector" where
  "init iface thr win =
     \<lparr>interface = iface, threshold = thr, window = win,
      events = [], alerts = [], running = False,
      deauth_counts = Map.empty, source_counts = [], target_counts = [],
      stdout = []\<rparr>"

subsection \<open>The library containers the detector relies on\<close>

text \<open>
  \<open>defaultdict(list).__getitem__\<close>: a missing key reads as the empty list.
\<close>

definition getitem :: "(string \<rightharpoonup> real list) \<Rightarrow> string \<Rightarrow> real list" where
  "getitem d k = (case d k of None \<Rightarrow> [] | Some ts \<Rightarrow> ts)"

text \<open>
  \<open>Counter.__getitem__\<close>: a missing key reads as zero. \<open>c[k] += 1\<close> stores the read value
  plus one; a present key keeps its position, a new key goes to the end.
\<close>

definition counter_get :: "(string \<times> int) list \<Rightarrow> string \<Rightarrow> int" where
  "counter_get c k = (case map_of c k of None \<Rightarrow> 0 | Some n \<Rightarrow> n)"

definition counter_incr :: "(string \<times> int) list \<Rightarrow> string \<Rightarrow> (string \<times> int) list" where
  "counter_incr c k = AList.update k (counter_get c k + 1) c"

text \<open>
  \<open>Counter.most_common(n)\<close> is \<open>heapq.nlargest(n, self.items(), key=itemgetter(1))\<close>, which
  Python documents as \<open>sorted(items, key=itemgetter(1), reverse=True)[:n]\<close>: a stable sort
  by descending count, cut after \<open>n\<close> entries.
\<close>

definition most_common :: "nat \<Rightarrow> (string \<times> int) list \<Rightarrow> (string \<times> int) list" where
  "most_common n c = take n (sort_key (\<lambda>p. - snd p) c)"

section \<open>The detection engine\<close>

definition BROADCAST :: string where
  "BROADCAST = ''ff:ff:ff:ff:ff:ff''"

text \<open>The key \<open>f"{event.source_mac}->{event.dest_mac}"\<close>.\<close>

definition key_of :: "DeauthEvent \<Rightarrow> string" where
  "key_of event = source_mac event @ ''->'' @ dest_mac event"

definition print_event :: "DeauthDetector \<Rightarrow> DeauthEvent \<Rightarrow> DeauthDetector" where
  "print_event self event = self\<lparr>stdout := stdout self @ [EventLine event]\<rparr>"

definition print_alert :: "DeauthDetector \<Rightarrow> Alert \<Rightarrow> DeauthDetector" where
  "print_alert self alert = self\<lparr>stdout := stdout self @ [AlertBanner alert (window self)]\<rparr>"

text \<open>
  The arrow in the description of a targeted attack is U+2192, written here as its three
  UTF-8 bytes.
\<close>

definition arrow :: string where
  "arrow = [char_of (0xE2 :: nat), char_of (0x86 :: nat), char_of (0x92 :: nat)]"

definition generate_alert :: "DeauthDetector \<Rightarrow> DeauthEvent \<Rightarrow> int \<Rightarrow> DeauthDetector" where
  "generate_alert self event cnt =
     (let (attack_type, severity, description) =
            (if dest_mac event = BROADCAST
             then (''Broadcast Deauth Attack'', ''critical'',
                   ''Broadcast deauth flood from '' @ source_mac event)
             else (''Targeted Deauth Attack'', ''high'',
                   ''Targeted deauth attack: '' @ source_mac event @ '' '' @ arrow @ '' ''
                     @ dest_mac event));
          alert = \<lparr>Alert.timestamp = DeauthEvent.timestamp event,
                   severity = severity,
                   attack_type = attack_type,
                   Alert.source_mac = source_mac event,
                   target_mac = dest_mac event,
                   Alert.bssid = bssid event,
                   frame_count = cnt,
                   description = description\<rparr>;
          self = self\<lparr>alerts := alerts self @ [alert]\<rparr>
      in print_alert self alert)"

text \<open>
  \<open>process_event\<close>, statement by statement. \<open>current_time\<close> is the value \<open>time.time()\<close>
  returns inside the call. The comparison \<open>current_time - t < self.window\<close> is between a
  clock reading and the integer window.
\<close>

definition process_event :: "DeauthDetector \<Rightarrow> DeauthEvent \<Rightarrow> real \<Rightarrow> DeauthDetector" where
  "process_event self event current_time =
     (let self = self\<lparr>events := events self @ [event]\<rparr>;
          self = self\<lparr>source_counts := counter_incr (source_counts self) (source_mac event)\<rparr>;
          self = self\<lparr>target_counts := counter_incr (target_counts self) (dest_mac event)\<rparr>;
          key = key_of event;
          self = self\<lparr>deauth_counts :=
                   (deauth_counts self)(key \<mapsto> getitem (deauth_counts self) key @ [current_time])\<rparr>;
          self = self\<lparr>deauth_counts :=
                   (deauth_counts self)(key \<mapsto>
                      filter (\<lambda>t. current_time - t < real_of_int (window self))
                        (getitem (deauth_counts self) key))\<rparr>;
          self = print_event self event
      in if threshold self \<le> int (length (getitem (deauth_counts self) key))
         then generate_alert self event (int (length (getitem (deauth_counts self) key)))
         else self)"

subsection \<open>The console\<close>






text \<open>
  \<open>get_stats\<close> returns a dictionary with six entries. It is given here with the detector
  it leaves behind, so that what it does to the state is part of its result.
\<close>

record stats =
  total_events :: nat
  total_alerts :: nat
  unique_sources :: nat
  unique_targets :: nat
  top_sources :: "(string \<times> int) list"
  top_targets :: "(string \<times> int) list"

definition get_stats :: "DeauthDetector \<Rightarrow> stats \<times> DeauthDetector" where
  "get_stats self =
     (\<lparr>total_events = length (events self),
       total_alerts = length (alerts self),
       unique_sources = length (source_counts self),
       unique_targets = length (target_counts self),
       top_sources = most_common 5 (source_counts self),
       top_targets = most_common 5 (target_counts self)\<rparr>, self)"

text \<open>
  A run of the engine: the events handed to \<open>process_event\<close> one after the other, each with
  the clock reading taken during its call.
\<close>

definition process_all :: "DeauthDetector \<Rightarrow> (DeauthEvent \<times> real) list \<Rightarrow> DeauthDetector" where
  "process_all self steps = foldl (\<lambda>d (e, t). process_event d e t) self steps"

text \<open>
  The events of \<open>demo_mode\<close>: \<open>bssid\<close> is the source address, \<open>reason_code\<close> is 1, and
  the time stamp string is whatever \<open>datetime.now().isoformat()\<close> gave.
\<close>

definition demo_event :: "string \<Rightarrow> string \<Rightarrow> string \<Rightarrow> string \<Rightarrow> DeauthEvent" where
  "demo_event ts src dst ftype =
     \<lparr>DeauthEvent.timestamp = ts, source_mac = src, dest_mac = dst, bssid = src,
      frame_type = ftype, reason_code = 1, channel = None\<rparr>"

definition demo_a :: DeauthEvent where
  "demo_a = demo_event ''2024-01-01T00:00:00'' ''aa:bb:cc:dd:ee:01'' ''11:22:33:44:55:66'' ''deauth''"

definition demo_b :: DeauthEvent where
  "demo_b = demo_event ''2024-01-01T00:00:01'' ''aa:bb:cc:dd:ee:02'' ''ff:ff:ff:ff:ff:ff'' ''deauth''"







text \<open>Runs used as concrete inputs: six distinct sources, and a clock that steps back once.\<close>

definition six_sources :: DeauthDetector where
  "six_sources = process_all (init ''demo'' 3 10)
     [(demo_event ''t'' ''aa:bb:cc:dd:ee:01'' ''11:22:33:44:55:66'' ''deauth'', 0),
      (demo_event ''t'' ''aa:bb:cc:dd:ee:02'' ''11:22:33:44:55:66'' ''deauth'', 1),
      (demo_event ''t'' ''aa:bb:cc:dd:ee:03'' ''11:22:33:44:55:66'' ''deauth'', 2),
      (demo_event ''t'' ''aa:bb:cc:dd:ee:04'' ''11:22:33:44:55:66'' ''deauth'', 3),
      (demo_event ''t'' ''aa:bb:cc:dd:ee:05'' ''11:22:33:44:55:66'' ''deauth'', 4),
      (demo_event ''t'' ''aa:bb:cc:dd:ee:06'' ''11:22:33:44:55:66'' ''deauth'', 5)]"

definition late_arrival :: DeauthDetector where
  "late_arrival = process_all (init ''demo'' 3 10) [(demo_a, 5), (demo_a, 0), (demo_a, 6)]"

section \<open>Predicates used in the statements\<close>

text \<open>An alert is emitted when \<open>print_alert\<close> writes its banner.\<close>

fun is_alert_banner :: "printed \<Rightarrow> bool" where
  "is_alert_banner (AlertBanner a w) = True"
| "is_alert_banner (EventLine e) = False"

text \<open>
  The consistency of the statistics: both counters add up to the number of logged events,
  and the alert log is as long as the number of alert banners printed.
\<close>

definition stats_consistent :: "DeauthDetector \<Rightarrow> bool" where
  "stats_consistent d \<longleftrightarrow>
     sum_list (map snd (source_counts d)) = int (length (events d)) \<and>
     sum_list (map snd (target_counts d)) = int (length (events d)) \<and>
     length (alerts d) = length (filter is_alert_banner (stdout d))"

text \<open>
  The order in which the elements of a list are first met: each element once, at the
  place of its first occurrence.
\<close>

definition first_seen :: "string list \<Rightarrow> string list" where
  "first_seen xs = rev (remdups (rev xs))"

section \<open>What one call of \<open>process_event\<close> does to each field\<close>

lemma getitem_upd: "getitem (m(k \<mapsto> v)) k = v"
  by (simp add: getitem_def)


lemmas pe_unfold =
  process_event_def Let_def generate_alert_def print_alert_def print_event_def getitem_upd

lemma pe_events: "events (process_event d e t) = events d @ [e]"
  by (simp add: pe_unfold split: prod.splits)

lemma pe_threshold: "threshold (process_event d e t) = threshold d"
  by (simp add: pe_unfold split: prod.splits)

lemma pe_window: "window (process_event d e t) = window d"
  by (simp add: pe_unfold split: prod.splits)

lemma pe_interface: "interface (process_event d e t) = interface d"
  by (simp add: pe_unfold split: prod.splits)

lemma pe_running: "running (process_event d e t) = running d"
  by (simp add: pe_unfold split: prod.splits)

lemma pe_source_counts:
  "source_counts (process_event d e t) = counter_incr (source_counts d) (source_mac e)"
  by (simp add: pe_unfold split: prod.splits)

lemma pe_target_counts:
  "target_counts (process_event d e t) = counter_incr (target_counts d) (dest_mac e)"
  by (simp add: pe_unfold split: prod.splits)

lemma pe_deauth_counts:
  "deauth_counts (process_event d e t) =
     (deauth_counts d)(key_of e \<mapsto>
        filter (\<lambda>x. t - x < real_of_int (window d)) (getitem (deauth_counts d) (key_of e) @ [t]))"
  by (simp add: pe_unfold split: prod.splits)

lemma pe_getitem:
  "getitem (deauth_counts (process_event d e t)) (key_of e) =
     filter (\<lambda>x. t - x < real_of_int (window d)) (getitem (deauth_counts d) (key_of e) @ [t])"
  by (simp add: pe_deauth_counts getitem_upd)

lemma pe_alerts:
  "alerts (process_event d e t) =
     (let n = int (length (getitem (deauth_counts (process_event d e t)) (key_of e))) in
      if threshold d \<le> n
      then alerts d @
        [\<lparr>Alert.timestamp = DeauthEvent.timestamp e,
          severity = (if dest_mac e = BROADCAST then ''critical'' else ''high''),
          attack_type = (if dest_mac e = BROADCAST then ''Broadcast Deauth Attack''
                         else ''Targeted Deauth Attack''),
          Alert.source_mac = source_mac e, target_mac = dest_mac e, Alert.bssid = bssid e,
          frame_count = n,
          description = (if dest_mac e = BROADCAST
             then ''Broadcast deauth flood from '' @ source_mac e
             else ''Targeted deauth attack: '' @ source_mac e @ '' '' @ arrow @ '' ''
                    @ dest_mac e)\<rparr>]
      else alerts d)"
  unfolding pe_getitem by (simp add: pe_unfold split: prod.splits)

lemma pe_stdout:
  "stdout (process_event d e t) =
     (if threshold d \<le> int (length (getitem (deauth_counts (process_event d e t)) (key_of e)))
      then stdout d @ [EventLine e, AlertBanner (last (alerts (process_event d e t))) (window d)]
      else stdout d @ [EventLine e])"
  unfolding pe_getitem by (simp add: pe_unfold split: prod.splits)

lemma process_all_Nil: "process_all d [] = d"
  by (simp add: process_all_def)

lemma process_all_snoc:
  "process_all d (steps @ [(e, t)]) = process_event (process_all d steps) e t"
  by (simp add: process_all_def)

lemma process_all_threshold: "threshold (process_all d steps) = threshold d"
  by (induction steps rule: rev_induct) (auto simp: process_all_Nil process_all_snoc pe_threshold)

lemma process_all_window: "window (process_all d steps) = window d"
  by (induction steps rule: rev_induct) (auto simp: process_all_Nil process_all_snoc pe_window)

text \<open>The facts that evaluate a run on concrete events.\<close>

lemmas run_simps =
  process_all_def init_def demo_event_def demo_a_def demo_b_def key_of_def getitem_def
  BROADCAST_def Let_def
  pe_events pe_threshold pe_window pe_deauth_counts pe_alerts pe_stdout
  pe_source_counts pe_target_counts

lemma process_all_step:
  "process_all d (steps @ [x]) = process_event (process_all d steps) (fst x) (snd x)"
  by (cases x) (simp add: process_all_snoc)

lemma process_all_events: "events (process_all d steps) = events d @ map fst steps"
  by (induction steps rule: rev_induct)
     (simp_all add: process_all_Nil process_all_step pe_events)

section \<open>Counters\<close>

lemma counter_get_incr:
  "counter_get (counter_incr c k) m = counter_get c m + (if m = k then 1 else 0)"
  by (simp add: counter_get_def counter_incr_def update_conv')

lemma sum_update:
  "sum_list (map snd (AList.update k v c)) = sum_list (map snd c) - counter_get c k + v"
  by (induction c) (auto simp: counter_get_def)

lemma sum_counter_incr: "sum_list (map snd (counter_incr c k)) = sum_list (map snd c) + 1"
  by (simp add: counter_incr_def sum_update)

section \<open>The alert log\<close>

lemma last_alert_fields:
  assumes "threshold d \<le> int (length (getitem (deauth_counts (process_event d e t)) (key_of e)))"
  shows "target_mac (last (alerts (process_event d e t))) = dest_mac e"
    and "severity (last (alerts (process_event d e t))) =
           (if dest_mac e = BROADCAST then ''critical'' else ''high'')"
    and "attack_type (last (alerts (process_event d e t))) =
           (if dest_mac e = BROADCAST then ''Broadcast Deauth Attack''
            else ''Targeted Deauth Attack'')"
    and "frame_count (last (alerts (process_event d e t))) =
           int (length (getitem (deauth_counts (process_event d e t)) (key_of e)))"
    and "Alert.source_mac (last (alerts (process_event d e t))) = source_mac e"
  using assms by (subst pe_alerts, simp add: Let_def)+

text \<open>A property of the alert a call appends holds of the whole log after the call.\<close>

lemma alerts_step:
  assumes "\<forall>a \<in> set (alerts d). P a"
      and "threshold d \<le> int (length (getitem (deauth_counts (process_event d e t)) (key_of e)))
             \<Longrightarrow> P (last (alerts (process_event d e t)))"
  shows "\<forall>a \<in> set (alerts (process_event d e t)). P a"
proof (cases "threshold d \<le> int (length (getitem (deauth_counts (process_event d e t)) (key_of e)))")
  case True
  from assms(2)[OF True] have "P (last (alerts (process_event d e t)))" .
  moreover from True have "set (alerts (process_event d e t)) =
      insert (last (alerts (process_event d e t))) (set (alerts d))"
    by (subst (1 2) pe_alerts) (simp add: Let_def)
  ultimately show ?thesis using assms(1) by simp
next
  case False
  then have "alerts (process_event d e t) = alerts d"
    by (subst pe_alerts) (simp add: Let_def)
  then show ?thesis using assms(1) by simp
qed

lemma run_alerts_invariant:
  assumes step: "\<And>d e t. threshold d = th \<Longrightarrow>
      threshold d \<le> int (length (getitem (deauth_counts (process_event d e t)) (key_of e))) \<Longrightarrow>
      P (last (alerts (process_event d e t)))"
  shows "\<forall>a \<in> set (alerts (process_all (init i th w) steps)). P a"
proof (induction steps rule: rev_induct)
  case Nil
  show ?case by (simp add: process_all_Nil init_def)
next
  case (snoc x steps)
  have th: "threshold (process_all (init i th w) steps) = th"
    by (simp add: process_all_threshold init_def)
  show ?case
    unfolding process_all_step
    by (rule alerts_step[OF snoc.IH]) (rule step[OF th])
qed

section \<open>Statistics\<close>

lemma stats_consistent_init: "stats_consistent (init i th w)"
  by (simp add: stats_consistent_def init_def)

lemma stats_consistent_step: "stats_consistent d \<Longrightarrow> stats_consistent (process_event d e t)"
  by (simp add: stats_consistent_def pe_events pe_source_counts pe_target_counts
        sum_counter_incr pe_alerts pe_stdout Let_def)

lemma stats_consistent_run: "stats_consistent (process_all (init i th w) steps)"
  by (induction steps rule: rev_induct)
     (simp_all add: process_all_Nil process_all_step stats_consistent_init stats_consistent_step)

section \<open>Runs on one key with a clock that does not go back\<close>

text \<open>
  With non-decreasing clock readings, what is stored under the key after a run of a new
  detector on that key is every reading of the run that lies within the window of the
  last one.
\<close>

lemma sorted_clock_window:
  assumes "sorted (map snd steps)" and "\<forall>x \<in> set steps. key_of (fst x) = k" and "steps \<noteq> []"
  shows "getitem (deauth_counts (process_all (init i th w) steps)) k =
           filter (\<lambda>t. snd (last steps) - t < real_of_int w) (map snd steps)"
  using assms
proof (induction steps rule: rev_induct)
  case Nil
  then show ?case by simp
next
  case (snoc x steps)
  have w: "window (process_all (init i th w) steps) = w"
    by (simp add: process_all_window init_def)
  have k: "key_of (fst x) = k" using snoc.prems(2) by simp
  show ?case
  proof (cases "steps = []")
    case True
    then show ?thesis
      using k pe_getitem[of "init i th w" "fst x" "snd x"]
      by (simp add: process_all_def case_prod_beta init_def getitem_def)
  next
    case False
    from snoc.prems(1) have srt: "sorted (map snd steps)"
      and le: "\<forall>t \<in> set (map snd steps). t \<le> snd x"
      by (auto simp: sorted_append)
    have IH: "getitem (deauth_counts (process_all (init i th w) steps)) k =
           filter (\<lambda>t. snd (last steps) - t < real_of_int w) (map snd steps)"
      using snoc.IH[OF srt _ False] snoc.prems(2) by simp
    have "snd (last steps) \<le> snd x" using le False by simp
    then have "filter (\<lambda>t. snd x - t < real_of_int w)
                 (filter (\<lambda>t. snd (last steps) - t < real_of_int w) (map snd steps))
        = filter (\<lambda>t. snd x - t < real_of_int w) (map snd steps)"
      by (auto intro!: filter_cong)
    then show ?thesis
      by (simp add: process_all_step pe_getitem[of _ "fst x", unfolded k] w IH)
  qed
qed

section \<open>Interleaved runs with a clock that does not go back\<close>








section \<open>Threshold detection\<close>




text \<open>
  Claim C2. After the prune step of a call, the sequence stored under the key is the
  sequence recorded for that key (what was stored before, and the new reading) restricted
  to the readings \<open>t\<close> with \<open>now - t < window\<close>; its length is their number; no reading
  with \<open>now - t \<ge> window\<close> is in it; and that length is the count the threshold check uses.
  This holds in every detector state, hence after every sequence of events. For a run of a
  new detector on one key with non-decreasing clock readings, the count is the number of
  all readings of the run with \<open>now - t < window\<close>.
\<close>

theorem window_count_after_prune:
  "(let d' = process_event d e now;
        recorded = getitem (deauth_counts d) (key_of e) @ [now];
        kept = getitem (deauth_counts d') (key_of e)
    in kept = filter (\<lambda>t. now - t < real_of_int (window d)) recorded \<and>
       length kept = length (filter (\<lambda>t. now - t < real_of_int (window d)) recorded) \<and>
       (\<forall>t \<in> set kept. now - t < real_of_int (window d)) \<and>
       (alerts d' \<noteq> alerts d \<longleftrightarrow>
          threshold d \<le> int (length (filter (\<lambda>t. now - t < real_of_int (window d)) recorded)))) \<and>
   (steps \<noteq> [] \<and> sorted (map snd steps) \<and> (\<forall>x \<in> set steps. key_of (fst x) = k) \<longrightarrow>
      length (getitem (deauth_counts (process_all (init i th w) steps)) k) =
        length (filter (\<lambda>t. snd (last steps) - t < real_of_int w) (map snd steps)))"
proof (intro conjI impI)
  show "let d' = process_event d e now;
        recorded = getitem (deauth_counts d) (key_of e) @ [now];
        kept = getitem (deauth_counts d') (key_of e)
    in kept = filter (\<lambda>t. now - t < real_of_int (window d)) recorded \<and>
       length kept = length (filter (\<lambda>t. now - t < real_of_int (window d)) recorded) \<and>
       (\<forall>t \<in> set kept. now - t < real_of_int (window d)) \<and>
       (alerts d' \<noteq> alerts d \<longleftrightarrow>
          threshold d \<le> int (length (filter (\<lambda>t. now - t < real_of_int (window d)) recorded)))"
    by (simp add: Let_def pe_getitem pe_alerts)
next
  assume "steps \<noteq> [] \<and> sorted (map snd steps) \<and> (\<forall>x \<in> set steps. key_of (fst x) = k)"
  then have "getitem (deauth_counts (process_all (init i th w) steps)) k =
      filter (\<lambda>t. snd (last steps) - t < real_of_int w) (map snd steps)"
    by (intro sorted_clock_window) simp_all
  then show "length (getitem (deauth_counts (process_all (init i th w) steps)) k) =
        length (filter (\<lambda>t. snd (last steps) - t < real_of_int w) (map snd steps))"
    by simp
qed

theorem window_count_after_prune_witness:
  "(let d = process_all (init ''demo'' 3 10) [(demo_a, 0), (demo_a, 1), (demo_a, 2)];
        d' = process_event d demo_a 11
    in getitem (deauth_counts d) (key_of demo_a) = [0, 1, 2] \<and>
       getitem (deauth_counts d') (key_of demo_a) = [2, 11] \<and>
       (\<forall>t \<in> set (getitem (deauth_counts d') (key_of demo_a)). 11 - t < real_of_int 10) \<and>
       alerts d' = alerts d) \<and>
   length (getitem (deauth_counts (process_all (init ''demo'' 3 10)
             [(demo_a, 0), (demo_a, 1), (demo_a, 2), (demo_a, 11)])) (key_of demo_a)) = 2"
  using window_count_after_prune
    [where d = "process_all (init ''demo'' 3 10) [(demo_a, 0), (demo_a, 1), (demo_a, 2)]"
       and e = demo_a and now = 11
       and steps = "[(demo_a, 0), (demo_a, 1), (demo_a, 2), (demo_a, 11)]"
       and k = "key_of demo_a" and i = "''demo''" and th = 3 and w = 10]
  by (simp add: run_simps)

section \<open>Classification and frame count of alerts\<close>

text \<open>
  Claim C3. An event that triggers an alert gives an alert for its own destination, with
  severity \<open>critical\<close> and attack type \<open>Broadcast Deauth Attack\<close> when the destination is
  \<open>ff:ff:ff:ff:ff:ff\<close>, and with severity \<open>high\<close> and attack type
  \<open>Targeted Deauth Attack\<close> otherwise. The alert \<open>generate_alert\<close> builds does not depend on
  the detector it is called on. In the alert log of any run of a new detector no other
  pair of severity and attack type occurs.
\<close>

theorem alert_classification:
  "(let d' = process_event d e now in
      alerts d' \<noteq> alerts d \<longrightarrow>
        alerts d' = alerts d @ [last (alerts d')] \<and>
        target_mac (last (alerts d')) = dest_mac e \<and>
        severity (last (alerts d')) = (if dest_mac e = BROADCAST then ''critical'' else ''high'') \<and>
        attack_type (last (alerts d')) =
          (if dest_mac e = BROADCAST then ''Broadcast Deauth Attack''
           else ''Targeted Deauth Attack'')) \<and>
   last (alerts (generate_alert d1 e n)) = last (alerts (generate_alert d2 e n)) \<and>
   (\<forall>a \<in> set (alerts (process_all (init i th w) steps)).
      (severity a, attack_type a) =
        (if target_mac a = BROADCAST then (''critical'', ''Broadcast Deauth Attack'')
         else (''high'', ''Targeted Deauth Attack'')))"
proof (intro conjI)
  show "let d' = process_event d e now in
      alerts d' \<noteq> alerts d \<longrightarrow>
        alerts d' = alerts d @ [last (alerts d')] \<and>
        target_mac (last (alerts d')) = dest_mac e \<and>
        severity (last (alerts d')) = (if dest_mac e = BROADCAST then ''critical'' else ''high'') \<and>
        attack_type (last (alerts d')) =
          (if dest_mac e = BROADCAST then ''Broadcast Deauth Attack''
           else ''Targeted Deauth Attack'')"
    by (simp add: Let_def pe_alerts)
  show "last (alerts (generate_alert d1 e n)) = last (alerts (generate_alert d2 e n))"
    by (simp add: generate_alert_def print_alert_def Let_def split: prod.splits)
  show "\<forall>a \<in> set (alerts (process_all (init i th w) steps)).
      (severity a, attack_type a) =
        (if target_mac a = BROADCAST then (''critical'', ''Broadcast Deauth Attack'')
         else (''high'', ''Targeted Deauth Attack''))"
    by (rule run_alerts_invariant) (simp add: last_alert_fields)
qed

theorem alert_classification_witness:
  "(let d = process_all (init ''demo'' 3 10) [(demo_b, 0), (demo_b, 2)];
        d' = process_event d demo_b 5
    in alerts d' \<noteq> alerts d \<and>
       severity (last (alerts d')) = ''critical'' \<and>
       attack_type (last (alerts d')) = ''Broadcast Deauth Attack'') \<and>
   (let d = process_all (init ''demo'' 3 10) [(demo_a, 0), (demo_a, 1), (demo_a, 2)]
    in alerts d \<noteq> [] \<and>
       (\<forall>a \<in> set (alerts d). severity a = ''high'' \<and> attack_type a = ''Targeted Deauth Attack''))"
  using alert_classification
    [of "process_all (init ''demo'' 3 10) [(demo_b, 0), (demo_b, 2)]" demo_b 5
        "init ''demo'' 3 10" 3 "init ''demo'' 3 10" "''demo''" 3 10
        "[(demo_a, 0), (demo_a, 1), (demo_a, 2)]"]
  by (simp add: run_simps)

text \<open>
  Claim C4. The alert a call emits has as \<open>frame_count\<close> the number of readings stored
  under the key after the prune of that call, which is at least the threshold; so every
  alert in the log of a run of a new detector has a \<open>frame_count\<close> of at least the
  threshold.
\<close>

theorem frame_count_is_window_count:
  "(let d' = process_event d e now;
        n = int (length (getitem (deauth_counts d') (key_of e)))
    in alerts d' \<noteq> alerts d \<longrightarrow>
         alerts d' = alerts d @ [last (alerts d')] \<and> frame_count (last (alerts d')) = n \<and>
         threshold d \<le> frame_count (last (alerts d'))) \<and>
   (\<forall>a \<in> set (alerts (process_all (init i th w) steps)). th \<le> frame_count a)"
proof (intro conjI)
  show "let d' = process_event d e now;
        n = int (length (getitem (deauth_counts d') (key_of e)))
    in alerts d' \<noteq> alerts d \<longrightarrow>
         alerts d' = alerts d @ [last (alerts d')] \<and> frame_count (last (alerts d')) = n \<and>
         threshold d \<le> frame_count (last (alerts d'))"
    by (simp add: Let_def pe_alerts)
  show "\<forall>a \<in> set (alerts (process_all (init i th w) steps)). th \<le> frame_count a"
    by (rule run_alerts_invariant) (simp add: last_alert_fields)
qed

theorem frame_count_is_window_count_witness:
  "(let d = process_all (init ''demo'' 3 10) [(demo_a, 0), (demo_a, 1)];
        d' = process_event d demo_a 2
    in alerts d' \<noteq> alerts d \<and> frame_count (last (alerts d')) = 3 \<and>
       length (getitem (deauth_counts d') (key_of demo_a)) = 3) \<and>
   (let d = process_all (init ''demo'' 3 10) [(demo_a, 0), (demo_a, 1), (demo_a, 2), (demo_a, 3)]
    in map frame_count (alerts d) = [3, 4] \<and> (\<forall>a \<in> set (alerts d). 3 \<le> frame_count a))"
  using frame_count_is_window_count
    [of "process_all (init ''demo'' 3 10) [(demo_a, 0), (demo_a, 1)]" demo_a 2 "''demo''" 3 10
        "[(demo_a, 0), (demo_a, 1), (demo_a, 2), (demo_a, 3)]"]
  by (simp add: run_simps)

section \<open>Statistics consistency\<close>

text \<open>
  Claim C5. After a new detector has processed \<open>N\<close> events, \<open>total_events\<close> is \<open>N\<close>,
  \<open>total_alerts\<close> is the number of alert banners emitted, and the counts of the source
  table and of the target table each add up to \<open>total_events\<close>. The invariant
  \<open>stats_consistent\<close> holds of a new detector and is kept by every call of
  \<open>process_event\<close>, which raises \<open>total_events\<close> by one.
\<close>

theorem stats_consistency:
  "(let d = process_all (init i th w) steps; s = fst (get_stats d) in
      total_events s = length steps \<and>
      total_alerts s = length (filter is_alert_banner (stdout d)) \<and>
      sum_list (map snd (source_counts d)) = int (total_events s) \<and>
      sum_list (map snd (target_counts d)) = int (total_events s)) \<and>
   stats_consistent (init i th w) \<and>
   (stats_consistent d \<longrightarrow>
      stats_consistent (process_event d e now) \<and>
      total_events (fst (get_stats (process_event d e now))) =
        Suc (total_events (fst (get_stats d))))"
proof -
  have ev: "events (process_all (init i th w) steps) = map fst steps"
    by (simp add: process_all_events init_def)
  from stats_consistent_run[of i th w steps] ev
  have "let d = process_all (init i th w) steps; s = fst (get_stats d) in
      total_events s = length steps \<and>
      total_alerts s = length (filter is_alert_banner (stdout d)) \<and>
      sum_list (map snd (source_counts d)) = int (total_events s) \<and>
      sum_list (map snd (target_counts d)) = int (total_events s)"
    by (simp add: Let_def get_stats_def stats_consistent_def)
  moreover have "stats_consistent d \<longrightarrow>
      stats_consistent (process_event d e now) \<and>
      total_events (fst (get_stats (process_event d e now))) =
        Suc (total_events (fst (get_stats d)))"
    by (simp add: stats_consistent_step get_stats_def pe_events)
  ultimately show ?thesis
    using stats_consistent_init[of i th w] by blast
qed

theorem stats_consistency_witness:
  "(let d = process_all (init ''demo'' 3 10) [(demo_a, 0), (demo_b, 1)]
    in stats_consistent d \<and> stats_consistent (process_event d demo_a 2) \<and>
       total_events (fst (get_stats (process_event d demo_a 2))) = 3)"
  using stats_consistency
    [of "''demo''" 3 10 "[(demo_a, 0), (demo_b, 1)]"
        "process_all (init ''demo'' 3 10) [(demo_a, 0), (demo_b, 1)]" demo_a 2]
  by (simp add: run_simps stats_consistent_def get_stats_def counter_incr_def counter_get_def)

section \<open>Snapshots\<close>

text \<open>
  Claim C9. Two calls of \<open>get_stats\<close> with no event processed in between return the same
  statistics, and a call leaves the detector, with its event log, alert log, window store
  and counters, as it was.
\<close>

theorem get_stats_idempotent:
  "(let (s1, d1) = get_stats d; (s2, d2) = get_stats d1 in s1 = s2 \<and> d1 = d \<and> d2 = d) \<and>
   fst (get_stats (snd (get_stats d))) = fst (get_stats d) \<and> snd (get_stats d) = d"
  by (simp add: get_stats_def)

section \<open>What a call changes and what it leaves\<close>

text \<open>
  Claim C10. A call of \<open>process_event\<close> appends the event to the event log and nothing
  else; raises the counter of the source address by one and leaves every other source
  counter; does the same for the destination address in the target table; changes the
  window store at the key of the event only; appends one alert to the alert log or none;
  and leaves \<open>threshold\<close>, \<open>window\<close>, \<open>interface\<close> and \<open>running\<close> as they were.
\<close>

theorem process_event_frame:
  "let d' = process_event d e now in
     events d' = events d @ [e] \<and>
     (\<forall>m. counter_get (source_counts d') m =
            counter_get (source_counts d) m + (if m = source_mac e then 1 else 0)) \<and>
     (\<forall>m. counter_get (target_counts d') m =
            counter_get (target_counts d) m + (if m = dest_mac e then 1 else 0)) \<and>
     (\<forall>k. k \<noteq> key_of e \<longrightarrow> deauth_counts d' k = deauth_counts d k) \<and>
     (alerts d' = alerts d \<or> (\<exists>a. alerts d' = alerts d @ [a])) \<and>
     threshold d' = threshold d \<and> window d' = window d \<and>
     interface d' = interface d \<and> running d' = running d"
  by (simp add: Let_def pe_events pe_source_counts pe_target_counts counter_get_incr
        pe_deauth_counts pe_alerts pe_threshold pe_window pe_interface pe_running)

theorem process_event_frame_witness:
  "(let d = process_all (init ''demo'' 3 10) [(demo_a, 0)];
        d' = process_event d demo_b (1/2)
    in ''aa:bb:cc:dd:ee:01->11:22:33:44:55:66'' \<noteq> key_of demo_b \<and>
       deauth_counts d' ''aa:bb:cc:dd:ee:01->11:22:33:44:55:66'' = Some [0] \<and>
       deauth_counts d' (key_of demo_b) = Some [1/2] \<and>
       length (events d') = 2 \<and> alerts d' = alerts d)"
  using process_event_frame [of "process_all (init ''demo'' 3 10) [(demo_a, 0)]" demo_b "1/2"]
  by (simp add: run_simps)

section \<open>The order of the frequency tables and of \<open>most_common\<close>\<close>

lemma most_common_spec:
  "\<exists>ys. most_common n c = take n ys \<and> mset ys = mset c \<and>
        sorted_wrt (\<lambda>p q. snd q \<le> snd p) ys \<and>
        (\<forall>v. filter (\<lambda>p. snd p = v) ys = filter (\<lambda>p. snd p = v) c)"
proof (intro exI conjI allI)
  let ?ys = "sort_key (\<lambda>p. - snd p) c"
  show "most_common n c = take n ?ys" by (simp add: most_common_def)
  show "mset ?ys = mset c" by simp
  have "sorted (map (\<lambda>p. - snd p) ?ys)" by (rule sorted_sort_key)
  then show "sorted_wrt (\<lambda>p q. snd q \<le> snd p) ?ys" by (simp add: sorted_map)
  fix v :: int
  from sort_key_stable[of "\<lambda>p. - snd p" "- v" c]
  show "filter (\<lambda>p. snd p = v) ?ys = filter (\<lambda>p. snd p = v) c" by simp
qed

lemma first_seen_snoc:
  "first_seen (xs @ [k]) = (if k \<in> set xs then first_seen xs else first_seen xs @ [k])"
  by (simp add: first_seen_def)

lemma keys_counter_incr:
  "map fst (counter_incr c k) = (if k \<in> set (map fst c) then map fst c else map fst c @ [k])"
  by (simp add: counter_incr_def update_keys)

lemma set_first_seen: "set (first_seen xs) = set xs"
  by (simp add: first_seen_def)

lemma keys_order_step:
  assumes "map fst c = first_seen xs"
  shows "map fst (counter_incr c k) = first_seen (xs @ [k])"
proof -
  have "map fst (counter_incr c k) =
          (if k \<in> set (map fst c) then map fst c else map fst c @ [k])"
    by (rule keys_counter_incr)
  also have "\<dots> = (if k \<in> set (first_seen xs) then first_seen xs else first_seen xs @ [k])"
    by (simp only: assms)
  also have "\<dots> = first_seen (xs @ [k])"
    by (simp only: first_seen_snoc set_first_seen)
  finally show ?thesis .
qed

lemma source_order: "map fst (source_counts (process_all (init i th w) steps)) =
    first_seen (map source_mac (events (process_all (init i th w) steps)))"
proof (induction steps rule: rev_induct)
  case Nil
  show ?case by (simp add: process_all_Nil init_def first_seen_def)
next
  case (snoc x steps)
  from keys_order_step[OF snoc.IH, of "source_mac (fst x)"]
  show ?case by (simp add: process_all_step pe_source_counts pe_events)
qed

lemma target_order: "map fst (target_counts (process_all (init i th w) steps)) =
    first_seen (map dest_mac (events (process_all (init i th w) steps)))"
proof (induction steps rule: rev_induct)
  case Nil
  show ?case by (simp add: process_all_Nil init_def first_seen_def)
next
  case (snoc x steps)
  from keys_order_step[OF snoc.IH, of "dest_mac (fst x)"]
  show ?case by (simp add: process_all_step pe_target_counts pe_events)
qed

text \<open>
  Claim C8, as the code has it. \<open>get_stats\<close> takes no argument: it returns the current
  \<open>total_events\<close> and \<open>total_alerts\<close> and, for sources and for targets, the first five
  entries of the frequency table arranged by descending count, entries of equal count
  staying in the order of the table, which is the order in which the addresses were first
  seen. The number five is fixed in \<open>get_stats\<close>.
\<close>

theorem snapshot_top_five:
  "let d = process_all (init i th w) steps; s = fst (get_stats d) in
     total_events s = length (events d) \<and> total_alerts s = length (alerts d) \<and>
     map fst (source_counts d) = first_seen (map source_mac (events d)) \<and>
     map fst (target_counts d) = first_seen (map dest_mac (events d)) \<and>
     (\<exists>ys. top_sources s = take 5 ys \<and> mset ys = mset (source_counts d) \<and>
        sorted_wrt (\<lambda>p q. snd q \<le> snd p) ys \<and>
        (\<forall>v. filter (\<lambda>p. snd p = v) ys = filter (\<lambda>p. snd p = v) (source_counts d))) \<and>
     (\<exists>ys. top_targets s = take 5 ys \<and> mset ys = mset (target_counts d) \<and>
        sorted_wrt (\<lambda>p q. snd q \<le> snd p) ys \<and>
        (\<forall>v. filter (\<lambda>p. snd p = v) ys = filter (\<lambda>p. snd p = v) (target_counts d)))"
  using most_common_spec[of 5 "source_counts (process_all (init i th w) steps)"]
        most_common_spec[of 5 "target_counts (process_all (init i th w) steps)"]
  by (simp add: Let_def get_stats_def source_order target_order)

text \<open>
  Claim C8 as stated asks for a number of entries chosen by the caller. With six sources
  seen, the six most common entries are not what \<open>get_stats\<close> returns: it returns five.
\<close>

theorem snapshot_top_n_counterexample:
  "length (source_counts six_sources) = 6 \<and>
   length (most_common 6 (source_counts six_sources)) = 6 \<and>
   length (top_sources (fst (get_stats six_sources))) = 5 \<and>
   top_sources (fst (get_stats six_sources)) \<noteq> most_common 6 (source_counts six_sources)"
  by (simp add: six_sources_def get_stats_def most_common_def run_simps counter_incr_def counter_get_def)

section \<open>Pruning\<close>

text \<open>
  Claim C6 as stated says that pruning removes from the front only, so that an old
  reading recorded late, behind a newer one, survives the prune that expires it. With
  window 10 and readings 5, 0, 6 recorded in this order, the prune at reading 11 removes
  the reading 0 from the middle and keeps the reading 5 in front of it: what is left is
  not an end piece of what was recorded.
\<close>

theorem prune_front_only_counterexample:
  "getitem (deauth_counts late_arrival) (key_of demo_a) = [5, 0, 6] \<and>
   getitem (deauth_counts (process_event late_arrival demo_a 11)) (key_of demo_a) = [5, 6, 11] \<and>
   \<not> (11 - (0::real) < real_of_int (window late_arrival)) \<and>
   \<not> suffix (getitem (deauth_counts (process_event late_arrival demo_a 11)) (key_of demo_a))
            (getitem (deauth_counts late_arrival) (key_of demo_a) @ [11])"
  by (simp add: late_arrival_def run_simps suffix_Cons)

text \<open>
  Claim C6, as the code has it. What the prune leaves is the recorded sequence with every
  reading \<open>t\<close> with \<open>now - t \<ge> window\<close> taken out, wherever it stands, and every other
  reading kept, in the same order and as many times as it was recorded: a recorded reading
  is kept exactly when \<open>now - t < window\<close>, and an expired reading is gone after the prune
  whatever precedes it.
\<close>

theorem prune_removes_every_expired:
  "let recorded = getitem (deauth_counts d) (key_of e) @ [now];
       kept = getitem (deauth_counts (process_event d e now)) (key_of e)
   in kept = filter (\<lambda>t. now - t < real_of_int (window d)) recorded \<and>
      subseq kept recorded \<and>
      (\<forall>t \<in> set recorded. t \<in> set kept \<longleftrightarrow> now - t < real_of_int (window d)) \<and>
      (\<forall>xs old ys. recorded = xs @ old # ys \<and> real_of_int (window d) \<le> now - old
          \<longrightarrow> old \<notin> set kept)"
  by (auto simp add: Let_def pe_getitem)

theorem prune_removes_every_expired_witness:
  "[5, 0, 6, 11] = [5] @ (0::real) # [6, 11] \<and> real_of_int (window late_arrival) \<le> 11 - 0 \<and>
   0 \<notin> set (getitem (deauth_counts (process_event late_arrival demo_a 11)) (key_of demo_a)) \<and>
   6 \<in> set (getitem (deauth_counts (process_event late_arrival demo_a 11)) (key_of demo_a))"
  using prune_removes_every_expired[of late_arrival demo_a 11]
  by (simp add: late_arrival_def run_simps)

section \<open>Events of any shape, and keys not seen before\<close>

text \<open>
  Among arbitrary strings two pairs of source and destination can share a key.
\<close>

lemma key_of_collision:
  "key_of (demo_event ts ''a->b'' ''c'' f) = key_of (demo_event ts ''a'' ''b->c'' f)"
  by (simp add: key_of_def demo_event_def)









end
